theory Spec2Isabelle
  imports Main "HOL-Library.Word" "HOL-Library.AList" "HOL-Library.Signed_Division"
begin

chapter \<open>The embedding\<close>

section \<open>Common types\<close>

text \<open>
  \<open>common.Address\<close> is a 20-byte array and \<open>common.Hash\<close> a 32-byte array; both are
  read as big-endian numbers of that width.  \<open>bson.ObjectId\<close> is a Go string.  A
  \<open>time.Time\<close> is represented by the instant it denotes, in nanoseconds.
\<close>

type_synonym address = "160 word"
type_synonym hash = "256 word"
type_synonym ObjectId = string
type_synonym Time = int

text \<open>A call either panics or returns.\<close>

datatype 'a outcome = Panic string | Return 'a

section \<open>types: accounts\<close>

text \<open>
  A \<open>*big.Int\<close> is a pointer: \<open>None\<close> is \<open>nil\<close>.  \<open>String()\<close> of package math/big
  writes a number in base 10, with a minus sign when it is negative, and writes \<open><nil>\<close>
  for a nil pointer.
\<close>

type_synonym bigInt = "int option"

fun digitsOf :: "nat \<Rightarrow> string" where
  "digitsOf n =
     (if n < 10 then [''0123456789'' ! n]
      else digitsOf (n div 10) @ [''0123456789'' ! (n mod 10)])"

declare digitsOf.simps [simp del]

definition BigInt_String :: "bigInt \<Rightarrow> string" where
  "BigInt_String x =
     (case x of
        None \<Rightarrow> ''<nil>''
      | Some i \<Rightarrow> if i < 0 then CHR ''-'' # digitsOf (nat (- i)) else digitsOf (nat i))"

definition big_NewInt :: "int \<Rightarrow> bigInt" where
  "big_NewInt i = Some i"

text \<open>A decimal string: one digit or more, after an optional minus sign.\<close>

definition isDigit :: "char \<Rightarrow> bool" where
  "isDigit c = (c \<in> set ''0123456789'')"

definition isDecimal :: "string \<Rightarrow> bool" where
  "isDecimal s =
     (case s of
        [] \<Rightarrow> False
      | c # cs \<Rightarrow> if c = CHR ''-'' then cs \<noteq> [] \<and> list_all isDigit cs else list_all isDigit s)"

text \<open>
  A Go map is kept as an association list with one entry for each key, assignments going
  through \<open>AList.update\<close>; the order of the list stands for the order in which a
  \<open>range\<close> loop happens to visit the map.  A \<open>*TokenBalance\<close> is a pointer as well.
\<close>

record TokenBalance =
  ID :: ObjectId
  Address :: address
  Symbol :: string
  Balance :: bigInt
  Allowance :: bigInt
  LockedBalance :: bigInt

record Account =
  ID :: ObjectId
  Address :: address
  TokenBalances :: "(address \<times> TokenBalance option) list"
  IsBlocked :: bool
  CreatedAt :: Time
  UpdatedAt :: Time

record TokenBalanceRecord =
  ID :: ObjectId
  Address :: string
  Symbol :: string
  Balance :: string
  Allowance :: string
  LockedBalance :: string

record AccountRecord =
  ID :: ObjectId
  Address :: string
  TokenBalances :: "(string \<times> TokenBalanceRecord) list"
  IsBlocked :: bool
  CreatedAt :: Time
  UpdatedAt :: Time

text \<open>
  The encodings that come from libraries outside the repository: \<open>Hex()\<close> of
  \<open>common.Address\<close>, the text \<open>json.Marshal\<close> writes for a \<open>common.Address\<close>, for a
  \<open>bson.ObjectId\<close> and what \<open>Hex()\<close> gives for it, and \<open>String()\<close> of \<open>time.Time\<close>.
\<close>

record encoders =
  Address_Hex :: "address \<Rightarrow> string"
  Address_MarshalText :: "address \<Rightarrow> string"
  ObjectId_Hex :: "ObjectId \<Rightarrow> string"
  Time_String :: "Time \<Rightarrow> string"


definition nilDereference :: string where
  "nilDereference = ''invalid memory address or nil pointer dereference''"









text \<open>
  Sample encoders: an address in hexadecimal, lower case, forty digits after \<open>0x\<close>; an
  object id as it is; a time as its number of nanoseconds.
\<close>

fun hexDigits :: "nat \<Rightarrow> nat \<Rightarrow> string" where
  "hexDigits 0 v = []"
| "hexDigits (Suc n) v = hexDigits n (v div 16) @ [''0123456789abcdef'' ! (v mod 16)]"

declare hexDigits.simps [simp del]

definition sampleEncoders :: encoders where
  "sampleEncoders =
     \<lparr>Address_Hex = (\<lambda>a. ''0x'' @ hexDigits 40 (unat a)),
      Address_MarshalText = (\<lambda>a. ''0x'' @ hexDigits 40 (unat a)),
      ObjectId_Hex = (\<lambda>i. i),
      Time_String = (\<lambda>t. BigInt_String (Some t))\<rparr>"



section \<open>services: the account service\<close>

text \<open>
  \<open>types.Token\<close> is declared outside the sources at hand; these are the fields the
  service reads.
\<close>

record Token =
  ID :: ObjectId
  ContractAddress :: address
  Symbol :: string

text \<open>
  The DAOs of the service are not part of the sources.  They are taken as they are called,
  over a database of any type: each returns its results and its error, \<open>Create\<close> the
  database after the call as well.
\<close>

record 'db daos =
  AccountDao_GetByAddress :: "'db \<Rightarrow> address \<Rightarrow> Account option \<times> string option"
  TokenDao_GetAll :: "'db \<Rightarrow> Token list \<times> string option"
  AccountDao_Create :: "Account \<Rightarrow> 'db \<Rightarrow> string option \<times> 'db"

text \<open>The loop of \<open>AccountService.Create\<close> over the tokens.\<close>

definition newTokenBalance :: "Token \<Rightarrow> TokenBalance" where
  "newTokenBalance token =
     \<lparr>TokenBalance.ID = Token.ID token,
        Address = Token.ContractAddress token,
        Symbol = Token.Symbol token,
        Balance = big_NewInt 100000,
        Allowance = big_NewInt 100000,
        LockedBalance = big_NewInt 0\<rparr>"

fun setTokenBalances ::
  "Token list \<Rightarrow> (address \<times> TokenBalance option) list
     \<Rightarrow> (address \<times> TokenBalance option) list" where
  "setTokenBalances [] balances = balances"
| "setTokenBalances (token # tokens) balances =
     setTokenBalances tokens
       (AList.update (Token.ContractAddress token) (Some (newTokenBalance token)) balances)"

text \<open>
  \<open>AccountService.Create\<close>.  The account is a pointer: \<open>None\<close> is \<open>nil\<close>, which makes
  \<open>account.Address\<close> panic.  The result is the error returned and the database.
\<close>

definition AccountService_Create ::
  "'db daos \<Rightarrow> Account option \<Rightarrow> 'db \<Rightarrow> (string option \<times> 'db) outcome" where
  "AccountService_Create s account db =
     (case account of
        None \<Rightarrow> Panic nilDereference
      | Some account \<Rightarrow>
          (let addr = Account.Address account;
               (acc, err) = AccountDao_GetByAddress s db addr
           in if err \<noteq> None \<and> err \<noteq> Some ''NO_ACCOUNT_FOUND'' then Return (err, db)
              else if acc \<noteq> None then Return (Some ''ACCOUNT_ALREADY_EXISTS'', db)
              else
                (let (tokens, err) = TokenDao_GetAll s db
                 in if err \<noteq> None then Return (err, db)
                    else
                      (let account = account\<lparr>Account.IsBlocked := False\<rparr>;
                           account = account\<lparr>Account.TokenBalances := []\<rparr>;
                           account = account\<lparr>Account.TokenBalances :=
                             setTokenBalances tokens (Account.TokenBalances account)\<rparr>
                       in Return (AccountDao_Create s account db)))))"

text \<open>
  What the service gives an account for a token: a balance entry with the id, contract
  address and symbol of the token, a balance and an allowance of 100000, nothing locked.
\<close>

definition initialBalance :: "Token \<Rightarrow> TokenBalance option \<Rightarrow> bool" where
  "initialBalance t v =
     (\<exists>tb. v = Some tb
        \<and> TokenBalance.ID tb = Token.ID t
        \<and> TokenBalance.Address tb = Token.ContractAddress t
        \<and> TokenBalance.Symbol tb = Token.Symbol t
        \<and> TokenBalance.Balance tb = Some 100000
        \<and> TokenBalance.Allowance tb = Some 100000
        \<and> TokenBalance.LockedBalance tb = Some 0)"

text \<open>
  Sample DAOs over a database that is a list of accounts and a list of tokens: an account
  is found by its address, and a created account is added at the end.
\<close>

definition sampleDaos :: "(Account list \<times> Token list) daos" where
  "sampleDaos =
     \<lparr>AccountDao_GetByAddress = (\<lambda>(accounts, tokens) a.
        case find (\<lambda>acc. Account.Address acc = a) accounts of
          Some acc \<Rightarrow> (Some acc, None)
        | None \<Rightarrow> (None, Some ''NO_ACCOUNT_FOUND'')),
      TokenDao_GetAll = (\<lambda>(accounts, tokens). (tokens, None)),
      AccountDao_Create = (\<lambda>account (accounts, tokens). (None, accounts @ [account], tokens))\<rparr>"

definition tokenZRX :: Token where
  "tokenZRX = \<lparr>Token.ID = ''t1'', ContractAddress = 0xE41D, Symbol = ''ZRX''\<rparr>"

definition tokenWETH :: Token where
  "tokenWETH = \<lparr>Token.ID = ''t2'', ContractAddress = 0xC02A, Symbol = ''WETH''\<rparr>"

definition accountOf :: "address \<Rightarrow> Account" where
  "accountOf a =
     \<lparr>Account.ID = [], Address = a, TokenBalances = [], IsBlocked = True,
        CreatedAt = 0, UpdatedAt = 0\<rparr>"

section \<open>daos: the order DAO\<close>

text \<open>
  \<open>types.Order\<close> is declared outside the sources at hand.  The fields that the DAO
  reads or writes are named; the remaining ones are kept together in \<open>Rest\<close>.
\<close>

record 'r Order =
  ID :: ObjectId
  Hash :: hash
  Status :: string
  CreatedAt :: Time
  UpdatedAt :: Time
  Rest :: 'r

text \<open>\<open>mgo.Index\<close>, with the two fields that \<open>NewOrderDao\<close> sets.\<close>

record Index =
  Key :: "string list"
  Unique :: bool

text \<open>
  Modelled from the spec: the document store and the \<open>db\<close> wrapper of package daos
  (\<open>db.session\<close>, \<open>db.Create\<close>) are not part of the sources.  The spec makes the order
  hash the primary external key of a persisted order, and the DAO installs a unique index
  on the field \<open>hash\<close>.  A collection is the list of its documents, in insertion order,
  with the indexes installed on it.  A unique index on \<open>hash\<close> refuses an insertion whose
  hash is already stored, and cannot be built over documents that already share a hash.
\<close>

record 'r Collection =
  documents :: "'r Order list"
  indexes :: "Index list"

type_synonym 'r Database = "string \<times> string \<Rightarrow> 'r Collection"

definition hashIndexed :: "'r Collection \<Rightarrow> bool" where
  "hashIndexed c = (\<lparr>Key = [''hash''], Unique = True\<rparr> \<in> set (indexes c))"

definition hashStored :: "hash \<Rightarrow> 'r Collection \<Rightarrow> bool" where
  "hashStored h c = (h \<in> set (map Order.Hash (documents c)))"

definition duplicateKey :: string where
  "duplicateKey = ''E11000 duplicate key error''"

text \<open>Modelled from the spec: \<open>Collection.EnsureIndex\<close> of the document store.\<close>

definition EnsureIndex :: "Index \<Rightarrow> 'r Collection \<Rightarrow> string + 'r Collection" where
  "EnsureIndex index c =
     (if index = \<lparr>Key = [''hash''], Unique = True\<rparr>
         \<and> \<not> distinct (map Order.Hash (documents c))
      then Inl duplicateKey
      else Inr (c\<lparr>indexes := indexes c @ [index]\<rparr>))"

text \<open>Modelled from the spec: \<open>db.Create\<close>, the insertion of one document.\<close>

definition db_Create ::
  "string \<Rightarrow> string \<Rightarrow> 'r Order \<Rightarrow> 'r Database \<Rightarrow> string option \<times> 'r Database" where
  "db_Create dbName collection doc db =
     (let c = db (dbName, collection) in
      if hashIndexed c \<and> hashStored (Order.Hash doc) c
      then (Some duplicateKey, db)
      else (None, db((dbName, collection) := c\<lparr>documents := documents c @ [doc]\<rparr>)))"

record OrderDao =
  collectionName :: string
  dbName :: string

text \<open>
  \<open>NewOrderDao\<close>: the database name comes from \<open>app.Config.DBName\<close>, here the first
  argument.  A failure of \<open>EnsureIndex\<close> panics.
\<close>

definition NewOrderDao :: "string \<Rightarrow> 'r Database \<Rightarrow> (OrderDao \<times> 'r Database) outcome" where
  "NewOrderDao configDBName db =
     (let dbName = configDBName;
          collection = ''orders'';
          index = \<lparr>Key = [''hash''], Unique = True\<rparr>
      in case EnsureIndex index (db (dbName, collection)) of
           Inl err \<Rightarrow> Panic err
         | Inr c \<Rightarrow> Return (\<lparr>collectionName = collection, dbName = dbName\<rparr>,
                            db((dbName, collection) := c)))"

text \<open>
  \<open>OrderDao.Create\<close>.  The source draws an id from \<open>bson.NewObjectId()\<close> and reads the
  clock twice, once for each timestamp: \<open>newObjectId\<close>, \<open>now1\<close> and \<open>now2\<close> are what
  these three calls return.  The order is a pointer in the source, so the caller sees
  the assignments whether or not the insertion succeeds: the result carries the error,
  the order as the caller then sees it, and the database.
\<close>

definition OrderDao_Create ::
  "OrderDao \<Rightarrow> ObjectId \<Rightarrow> Time \<Rightarrow> Time \<Rightarrow> 'r Order \<Rightarrow> 'r Database
     \<Rightarrow> string option \<times> 'r Order \<times> 'r Database" where
  "OrderDao_Create dao newObjectId now1 now2 order db =
     (let order = order\<lparr>Order.ID := newObjectId\<rparr>;
          order = order\<lparr>Order.Status := ''NEW''\<rparr>;
          order = order\<lparr>Order.CreatedAt := now1\<rparr>;
          order = order\<lparr>Order.UpdatedAt := now2\<rparr>;
          (err, db') = db_Create (dbName dao) (collectionName dao) order db
      in (err, order, db'))"

text \<open>The orders a DAO sees in a database.\<close>

definition orders :: "OrderDao \<Rightarrow> 'r Database \<Rightarrow> 'r Order list" where
  "orders dao db = documents (db (dbName dao, collectionName dao))"

text \<open>
  The state the unique index maintains: the index is installed on the DAO's collection and
  no two of its documents share a hash.
\<close>

definition hashKeyed :: "OrderDao \<Rightarrow> 'r Database \<Rightarrow> bool" where
  "hashKeyed dao db =
     (hashIndexed (db (dbName dao, collectionName dao))
      \<and> distinct (map Order.Hash (orders dao db)))"

text \<open>
  A run of the DAO: \<open>OrderDao.Create\<close> called once for every request of a list, in
  order, whether or not the individual calls succeed.  A request holds what
  \<open>bson.NewObjectId()\<close> and the two clock readings return, and the order.
\<close>

fun run_Create ::
  "OrderDao \<Rightarrow> (ObjectId \<times> Time \<times> Time \<times> 'r Order) list \<Rightarrow> 'r Database \<Rightarrow> 'r Database" where
  "run_Create dao [] db = db"
| "run_Create dao ((i, t1, t2, order) # rs) db =
     run_Create dao rs (snd (snd (OrderDao_Create dao i t1 t2 order db)))"

text \<open>Sample data: an empty database, and orders whose other fields are a single string.\<close>

definition emptyDatabase :: "string Database" where
  "emptyDatabase = (\<lambda>_. \<lparr>documents = [], indexes = []\<rparr>)"

definition orderA :: "string Order" where
  "orderA = \<lparr>Order.ID = [], Hash = 0xA1, Status = ''FILLED'', CreatedAt = 0, UpdatedAt = 0,
     Rest = ''buy 10 at 100''\<rparr>"

definition orderB :: "string Order" where
  "orderB = \<lparr>Order.ID = ''5b3c'', Hash = 0xB2, Status = [], CreatedAt = 7, UpdatedAt = 9,
     Rest = ''sell 10 at 100''\<rparr>"

definition ordersDao :: OrderDao where
  "ordersDao = \<lparr>collectionName = ''orders'', dbName = ''proofdex''\<rparr>"

definition indexedDatabase :: "string Database" where
  "indexedDatabase = emptyDatabase((''proofdex'', ''orders'') :=
     \<lparr>documents = [], indexes = [\<lparr>Key = [''hash''], Unique = True\<rparr>]\<rparr>)"

definition twoRequests :: "(ObjectId \<times> Time \<times> Time \<times> string Order) list" where
  "twoRequests = [(''5b3d'', 1000, 1001, orderA), (''5b3e'', 2000, 2001, orderB)]"

section \<open>services: the OHLCV service\<close>

subsection \<open>The calls on package time\<close>

text \<open>
  A date of the Gregorian calendar, at midnight UTC.  \<open>time.Date\<close> accepts a month and
  a day outside their usual ranges and normalises them: the month first, carrying into
  the year, then the day, carrying into the months.
\<close>

record Date =
  year :: int
  month :: int
  day :: int

definition isLeap :: "int \<Rightarrow> bool" where
  "isLeap y = (y mod 4 = 0 \<and> (y mod 100 \<noteq> 0 \<or> y mod 400 = 0))"

definition daysIn :: "int \<Rightarrow> int \<Rightarrow> int" where
  "daysIn y m =
     (if m = 2 then (if isLeap y then 29 else 28)
      else if m = 4 \<or> m = 6 \<or> m = 9 \<or> m = 11 then 30
      else 31)"

definition daysInYear :: "int \<Rightarrow> int" where
  "daysInYear y = (if isLeap y then 366 else 365)"

function normDay :: "int \<Rightarrow> int \<Rightarrow> int \<Rightarrow> Date" where
  "normDay y m d =
     (if d < 1 then
        (if m = 1 then normDay (y - 1) 12 (d + daysIn (y - 1) 12)
         else normDay y (m - 1) (d + daysIn y (m - 1)))
      else if daysIn y m < d then
        (if m = 12 then normDay (y + 1) 1 (d - daysIn y m)
         else normDay y (m + 1) (d - daysIn y m))
      else \<lparr>year = y, month = m, day = d\<rparr>)"
  by pat_completeness auto
termination
  by (relation "measure (\<lambda>(y, m, d). if d < 1 then nat (1 - d) + 32 else nat d)")
    (auto simp: daysIn_def)

declare normDay.simps [simp del]

definition time_Date :: "int \<Rightarrow> int \<Rightarrow> int \<Rightarrow> Date" where
  "time_Date y m d = normDay (y + (m - 1) div 12) ((m - 1) mod 12 + 1) d"

text \<open>
  The number of days from 1 January of the year 1 to a date, as package time counts them:
  the days of the years before, of the months before, and of the month.
\<close>

definition daysBefore :: "int list" where
  "daysBefore = [0, 31, 59, 90, 120, 151, 181, 212, 243, 273, 304, 334, 365]"

definition dayNumber :: "Date \<Rightarrow> int" where
  "dayNumber t =
     (let y = year t - 1 in
      365 * y + y div 4 - y div 100 + y div 400
      + daysBefore ! nat (month t - 1)
      + (if isLeap (year t) \<and> 3 \<le> month t then 1 else 0)
      + (day t - 1))"

text \<open>
  \<open>t.Sub(u).Hours()\<close> for two dates at midnight.  A \<open>Duration\<close> counts nanoseconds in
  an \<open>int64\<close>, and \<open>Sub\<close> stops at the largest and the smallest one.
\<close>

definition Sub_Hours :: "Date \<Rightarrow> Date \<Rightarrow> int" where
  "Sub_Hours t u =
     (let ns = (dayNumber t - dayNumber u) * 86400 * 1000000000;
          ns = max (- (2 ^ 63)) (min (2 ^ 63 - 1) ns)
      in ns sdiv 3600000000000)"

text \<open>
  What one call of \<open>time.Now()\<close> gives: the nanoseconds since 1970, the year and the
  month.  The service reads the clock several times in one call; \<open>clock n\<close> is the
  reading number \<open>n\<close> of the call, counted from 0.
\<close>

record Now =
  UnixNano :: int
  Year :: int
  Month :: int

subsection \<open>The service\<close>

type_synonym int64 = "64 word"

text \<open>
  The service computes \<open>int64(math.Mod(float64(currentTs), float64(intervalSeconds)))\<close>
  in floating point; the function that does so is the parameter \<open>floatMod\<close>.
  \<open>types.PairSubDoc\<close> has the two token addresses.  \<open>tradeDao.Aggregate\<close> and the
  decoding of its response into ticks are not part of the sources: \<open>aggregate\<close> gives
  the ticks and the error for a query.
\<close>

record PairSubDoc =
  BaseToken :: address
  QuoteToken :: address

text \<open>
  The aggregation pipeline, by what the service puts into it: the unit and the duration
  passed to \<open>getGroupTsBson\<close> (none for the empty unit), the bounds on \<open>createdAt\<close> in
  seconds, and the pairs of the \<open>$or\<close> clause.
\<close>

record Query =
  groupTs :: "(string \<times> int64) option"
  createdAt_gte :: "int64 option"
  createdAt_lt :: "int64 option"
  or :: "(string \<times> string) list"

record 't ohlcv =
  clock :: "nat \<Rightarrow> Now"
  floatMod :: "int64 \<Rightarrow> int64 \<Rightarrow> int64"
  aggregate :: "Query \<Rightarrow> 't list \<times> string option"

text \<open>
  The \<open>switch\<close> on the unit: the group key, \<open>intervalSeconds\<close> and \<open>modTime\<close>, or the
  error.  The empty unit has a case of its own, which sets nothing.  The division of the
  hours by 24 is a floating-point one in the source; it is exact on whole days.
\<close>

definition currentTs :: "'t ohlcv \<Rightarrow> int64" where
  "currentTs s = word_of_int (UnixNano (clock s 0) sdiv 1000000000)"

definition modTimeOf :: "'t ohlcv \<Rightarrow> int64 \<Rightarrow> int64" where
  "modTimeOf s intervalSeconds = currentTs s - floatMod s (currentTs s) intervalSeconds"

definition unitSwitch ::
  "'t ohlcv \<Rightarrow> int64 \<Rightarrow> string \<Rightarrow> string + ((string \<times> int64) option \<times> int64 \<times> int64)" where
  "unitSwitch s duration unit =
     (if unit = ''sec'' then
        (let intervalSeconds = duration
         in Inr (Some (''sec'', duration), intervalSeconds, modTimeOf s intervalSeconds))
      else if unit = ''hour'' then
        (let intervalSeconds = duration * 60 * 60
         in Inr (Some (''hour'', duration), intervalSeconds, modTimeOf s intervalSeconds))
      else if unit = ''day'' then
        (let intervalSeconds = duration * 24 * 60 * 60
         in Inr (Some (''day'', duration), intervalSeconds, modTimeOf s intervalSeconds))
      else if unit = ''week'' then
        (let intervalSeconds = duration * 7 * 24 * 60 * 60
         in Inr (Some (''week'', duration), intervalSeconds, modTimeOf s intervalSeconds))
      else if unit = ''month'' then
        (let d = day (time_Date (Year (clock s 1)) (Month (clock s 2) + 1) 0);
             intervalSeconds = duration * word_of_int d * 7 * 24 * 60 * 60
         in Inr (Some (''month'', duration), intervalSeconds, modTimeOf s intervalSeconds))
      else if unit = ''yr'' then
        (let d = Sub_Hours (time_Date (Year (clock s 1) + 1) 0 0)
                   (time_Date (Year (clock s 2)) 0 0) div 24;
             intervalSeconds = duration * word_of_int d * 7 * 24 * 60 * 60
         in Inr (Some (''yr'', duration), intervalSeconds, modTimeOf s intervalSeconds))
      else if unit = [] then Inr (None, 0, 0)
      else if unit = ''min'' then
        (let intervalSeconds = duration * 60
         in Inr (Some (''min'', duration), intervalSeconds, modTimeOf s intervalSeconds))
      else Inl ''Invalid unit'')"

text \<open>\<open>intervalSeconds\<close> is a local variable of \<open>GetOHLCV\<close>; this is its value.\<close>

definition intervalSecondsOf :: "'t ohlcv \<Rightarrow> int64 \<Rightarrow> string \<Rightarrow> int64 option" where
  "intervalSecondsOf s duration unit =
     (case unitSwitch s duration unit of
        Inl err \<Rightarrow> None
      | Inr (g, i, m) \<Rightarrow> Some i)"

text \<open>Indexing a slice panics out of range.\<close>

definition index :: "'a list \<Rightarrow> nat \<Rightarrow> 'a outcome" where
  "index xs i =
     (if i < length xs then Return (xs ! i) else Panic ''runtime error: index out of range'')"

text \<open>
  \<open>OHLCVService.GetOHLCV\<close>: the ticks and the error.  The variadic \<open>timeInterval\<close> is
  the list of the arguments passed.
\<close>

definition GetOHLCV ::
  "'t ohlcv \<Rightarrow> encoders \<Rightarrow> PairSubDoc list \<Rightarrow> int64 \<Rightarrow> string \<Rightarrow> int64 list
     \<Rightarrow> ('t list \<times> string option) outcome" where
  "GetOHLCV s E pairs duration unit timeInterval =
     (case unitSwitch s duration unit of
        Inl err \<Rightarrow> Return ([], Some err)
      | Inr (g, intervalSeconds, modTime) \<Rightarrow>
          (let lt = modTime;
               gt = modTime - intervalSeconds;
               bounds =
                 (if length timeInterval = 0 then Return (None, Some lt)
                  else if 1 \<le> length timeInterval then
                    (case index timeInterval 1 of
                       Panic p \<Rightarrow> Panic p
                     | Return lt \<Rightarrow>
                         (case index timeInterval 0 of
                            Panic p \<Rightarrow> Panic p
                          | Return gt \<Rightarrow> Return (Some gt, Some lt)))
                  else Return (None, None))
           in case bounds of
                Panic p \<Rightarrow> Panic p
              | Return (gte, lt) \<Rightarrow>
                  (let query = \<lparr>groupTs = g, createdAt_gte = gte, createdAt_lt = lt,
                         or = map (\<lambda>pair. (Address_Hex E (BaseToken pair),
                                            Address_Hex E (QuoteToken pair))) pairs\<rparr>
                   in case aggregate s query of
                        (resp, Some err) \<Rightarrow> Return ([], Some err)
                      | (resp, None) \<Rightarrow> Return (resp, None))))"

text \<open>
  A sample service: every reading of the clock is 1 November 2018, 00:00:00 UTC; the
  remainder is the one of the integers; no trade is stored.
\<close>

definition sampleOhlcv :: "unit ohlcv" where
  "sampleOhlcv =
     \<lparr>clock = (\<lambda>n. \<lparr>UnixNano = 1541030400000000000, Year = 2018, Month = 11\<rparr>),
      floatMod = (\<lambda>a b. word_of_int (sint a smod sint b)),
      aggregate = (\<lambda>query. ([], None))\<rparr>"

section \<open>endpoints: the order endpoint\<close>

text \<open>
  \<open>types.WebSocketPayload\<close>.  \<open>Data\<close> is an \<open>interface{}\<close> holding a decoded JSON
  value; the type of such values is the parameter \<open>'j\<close>.
\<close>

record 'j WebSocketPayload =
  Type :: string
  Hash :: string
  Data :: 'j

text \<open>
  \<open>types.OrderCancel\<close> and \<open>ws.OrderConnection\<close> are declared outside the sources at
  hand.  Of the former the endpoint reads the hash only; of the latter it sets the three
  fields below, a missing \<open>ReadChannel\<close> being \<open>nil\<close>.  Connections and Go channels
  are represented by their identity.
\<close>

type_synonym conn = nat
type_synonym chan = nat

record 'c OrderCancel =
  Hash :: hash
  Rest :: 'c

record OrderConnection =
  Conn :: conn
  ReadChannel :: "chan option"
  Active :: bool

text \<open>
  The endpoint acts on the websocket hub (package ws), on the order service and on the
  log, none of which is in the sources.  Its effect is the sequence of calls it makes on
  them, in order: \<open>Send ch msg\<close> is the channel send \<open>ch <- msg\<close>, and
  \<open>RegisterConnectionUnsubscribeHandler conn h\<close> registers
  \<open>ws.OrderSocketUnsubscribeHandler(h)\<close> for \<open>conn\<close>.  \<open>SendOrderErrorMessage\<close> is
  variadic in the hash.
\<close>

datatype ('j, 'r, 'c) call =
    Log string
  | SendOrderErrorMessage conn string "hash option"
  | RegisterOrderConnection hash OrderConnection
  | RegisterConnectionUnsubscribeHandler conn hash
  | Send chan "'j WebSocketPayload"
  | NewOrder "'r Order"
  | CancelOrder "'c OrderCancel"

text \<open>
  What the calls return is given by the collaborators.  The hub and the service have
  state, so that their answers may depend on the calls made so far.
  \<^item> \<open>decodePayload\<close>: \<open>json.Marshal(input)\<close> followed by \<open>json.Unmarshal(bytes, &msg)\<close>
    in \<open>ws\<close>: the payload \<open>msg\<close> points to afterwards (\<open>None\<close> when the JSON value is
    \<open>null\<close>, which sets the pointer to \<open>nil\<close>) and the error of the second call.
  \<^item> \<open>jsonMarshal\<close>: \<open>json.Marshal(msg.Data)\<close>, the bytes and the error.
  \<^item> \<open>Order_UnmarshalJSON\<close> and \<open>OrderCancel_UnmarshalJSON\<close>: the value of the receiver
    after the call, which started as the zero value, and the error.
  \<^item> \<open>OrderService_NewOrder\<close> and \<open>OrderService_CancelOrder\<close> take a pointer: the value
    it points to after the call, and the error.
\<close>

record ('j, 'r, 'c) collaborators =
  decodePayload :: "'j \<Rightarrow> 'j WebSocketPayload option \<times> string option"
  jsonMarshal :: "'j \<Rightarrow> string \<times> string option"
  Order_UnmarshalJSON :: "string \<Rightarrow> 'r Order \<times> string option"
  OrderCancel_UnmarshalJSON :: "string \<Rightarrow> 'c OrderCancel \<times> string option"
  Order_ComputeHash :: "'r Order \<Rightarrow> hash"
  HexToHash :: "string \<Rightarrow> hash"
  GetOrderChannel :: "('j, 'r, 'c) call list \<Rightarrow> hash \<Rightarrow> chan option"
  OrderService_NewOrder :: "('j, 'r, 'c) call list \<Rightarrow> 'r Order \<Rightarrow> 'r Order \<times> string option"
  OrderService_CancelOrder ::
    "('j, 'r, 'c) call list \<Rightarrow> 'c OrderCancel \<Rightarrow> 'c OrderCancel \<times> string option"

text \<open>
  \<open>handleNewTrade\<close>.  The connection is not used.  A send on the channel is recorded;
  that it waits for a receiver is not modelled.
\<close>

definition handleNewTrade ::
  "('j, 'r, 'c) collaborators \<Rightarrow> 'j WebSocketPayload \<Rightarrow> conn
     \<Rightarrow> ('j, 'r, 'c) call list \<Rightarrow> ('j, 'r, 'c) call list" where
  "handleNewTrade E msg conn calls =
     (let hash = HexToHash E (WebSocketPayload.Hash msg);
          ch = GetOrderChannel E calls hash
      in case ch of
           Some c \<Rightarrow> calls @ [Send c msg]
         | None \<Rightarrow> calls)"

text \<open>
  \<open>handleNewOrder\<close>.  The channel made on entry is identified by the number of calls
  made before it, which no earlier channel can have.
\<close>

definition handleNewOrder ::
  "('j, 'r, 'c) collaborators \<Rightarrow> 'j WebSocketPayload \<Rightarrow> conn
     \<Rightarrow> ('j, 'r, 'c) call list \<Rightarrow> ('j, 'r, 'c) call list" where
  "handleNewOrder E msg conn calls =
     (let ch = length calls in
      case jsonMarshal E (Data msg) of
        (bytes, Some err) \<Rightarrow> calls @ [Log err, SendOrderErrorMessage conn err None]
      | (bytes, None) \<Rightarrow>
          (case Order_UnmarshalJSON E bytes of
             (order, Some err) \<Rightarrow> calls @ [Log err, SendOrderErrorMessage conn err None]
           | (order, None) \<Rightarrow>
               (let order = order\<lparr>Order.Hash := Order_ComputeHash E order\<rparr>;
                    calls = calls @ [RegisterOrderConnection (Order.Hash order)
                      \<lparr>Conn = conn, ReadChannel = Some ch, Active = False\<rparr>];
                    calls = calls @ [RegisterConnectionUnsubscribeHandler conn (Order.Hash order)];
                    (order', err) = OrderService_NewOrder E calls order;
                    calls = calls @ [NewOrder order]
                in case err of
                     Some err \<Rightarrow>
                       calls @ [Log err, SendOrderErrorMessage conn err (Some (Order.Hash order'))]
                   | None \<Rightarrow> calls)))"

text \<open>
  \<open>handleCancelOrder\<close>.  The error of \<open>json.Marshal\<close> is overwritten before it is read.
  After a failed \<open>UnmarshalJSON\<close> the error is logged and sent, and the function goes on.
\<close>

definition handleCancelOrder ::
  "('j, 'r, 'c) collaborators \<Rightarrow> 'j WebSocketPayload \<Rightarrow> conn
     \<Rightarrow> ('j, 'r, 'c) call list \<Rightarrow> ('j, 'r, 'c) call list" where
  "handleCancelOrder E p conn calls =
     (let (bytes, err) = jsonMarshal E (Data p);
          (oc, err) = OrderCancel_UnmarshalJSON E bytes;
          calls = (case err of
                     Some err \<Rightarrow>
                       calls @ [Log err,
                         SendOrderErrorMessage conn err (Some (OrderCancel.Hash oc))]
                   | None \<Rightarrow> calls);
          calls = calls @ [RegisterOrderConnection (OrderCancel.Hash oc)
            \<lparr>Conn = conn, ReadChannel = None, Active = True\<rparr>];
          calls = calls @ [RegisterConnectionUnsubscribeHandler conn (OrderCancel.Hash oc)];
          (oc', err) = OrderService_CancelOrder E calls oc;
          calls = calls @ [CancelOrder oc]
      in case err of
           Some err \<Rightarrow>
             calls @ [Log err, SendOrderErrorMessage conn err (Some (OrderCancel.Hash oc'))]
         | None \<Rightarrow> calls)"

text \<open>
  \<open>ws\<close>, the handler registered on the order channel.  A \<open>nil\<close> payload pointer makes
  \<open>msg.Type\<close> panic.
\<close>

definition OrderChannel :: string where
  "OrderChannel = ''orders''"

definition ws ::
  "('j, 'r, 'c) collaborators \<Rightarrow> 'j \<Rightarrow> conn
     \<Rightarrow> ('j, 'r, 'c) call list \<Rightarrow> ('j, 'r, 'c) call list outcome" where
  "ws E input conn calls =
     (let (msg, err) = decodePayload E input;
          calls = (case err of Some err \<Rightarrow> calls @ [Log err] | None \<Rightarrow> calls)
      in case msg of
           None \<Rightarrow> Panic ''invalid memory address or nil pointer dereference''
         | Some msg \<Rightarrow>
             if Type msg = ''NEW_ORDER'' then Return (handleNewOrder E msg conn calls)
             else if Type msg = ''CANCEL_ORDER'' then Return (handleCancelOrder E msg conn calls)
             else if Type msg = ''NEW_TRADE'' then Return (handleNewTrade E msg conn calls)
             else Return (calls @ [Log ''Response with error'']))"

text \<open>
  Modelled from the spec: \<open>OrderService.NewOrder\<close> is not part of the sources.  Of the
  validations the spec lists, this is the one of the hash, recomputed and compared with
  the hash the order carries; an order that passes is accepted, and an accepted order is
  what the service enqueues for the engine.
\<close>

definition NewOrder_validateHash ::
  "('r Order \<Rightarrow> hash) \<Rightarrow> 'r Order \<Rightarrow> 'r Order \<times> string option" where
  "NewOrder_validateHash computeHash order =
     (order, if Order.Hash order = computeHash order then None else Some ''Invalid order hash'')"

text \<open>
  Modelled from the spec: the hub's \<open>GetOrderChannel\<close> is not part of the sources.  The
  connection registered first for a hash owns the private channel of that hash.
\<close>

fun ownerChannel :: "('j, 'r, 'c) call list \<Rightarrow> hash \<Rightarrow> chan option" where
  "ownerChannel [] h = None"
| "ownerChannel (RegisterOrderConnection h' oc # calls) h =
     (if h' = h then ReadChannel oc else ownerChannel calls h)"
| "ownerChannel (_ # calls) h = ownerChannel calls h"

text \<open>
  Sample collaborators.  A JSON value is its text.  An order is written as the hash the
  client supplies, a colon, and the other fields; the hash of an order is the length of
  its other fields.  An empty text does not decode.
\<close>

definition suppliedOrder :: "hash \<Rightarrow> string \<Rightarrow> string Order" where
  "suppliedOrder h others =
     \<lparr>Order.ID = [], Hash = h, Status = [], CreatedAt = 0, UpdatedAt = 0, Rest = others\<rparr>"

definition sampleCollaborators :: "(string, string, unit) collaborators" where
  "sampleCollaborators =
     \<lparr>decodePayload = (\<lambda>input.
        if input = ''null'' then (None, None)
        else (Some \<lparr>Type = takeWhile (\<lambda>c. c \<noteq> CHR '' '') input, Hash = ''0x0d'',
                Data = drop 1 (dropWhile (\<lambda>c. c \<noteq> CHR '' '') input)\<rparr>, None)),
      jsonMarshal = (\<lambda>data. (data, None)),
      Order_UnmarshalJSON = (\<lambda>bytes.
        if bytes = ''0x0bad:buy 10 at 100'' then (suppliedOrder 0xBAD ''buy 10 at 100'', None)
        else if bytes = ''0x0d:buy 10 at 100'' then (suppliedOrder 0x0D ''buy 10 at 100'', None)
        else (suppliedOrder 0 [], Some ''unexpected end of JSON input'')),
      OrderCancel_UnmarshalJSON = (\<lambda>bytes.
        if bytes = ''0x0d'' then (\<lparr>OrderCancel.Hash = 0x0D, Rest = ()\<rparr>, None)
        else (\<lparr>OrderCancel.Hash = 0, Rest = ()\<rparr>, Some ''unexpected end of JSON input'')),
      Order_ComputeHash = (\<lambda>order. word_of_nat (length (Order.Rest order))),
      HexToHash = (\<lambda>s. if s = ''0x0d'' then 0x0D else 0),
      GetOrderChannel = ownerChannel,
      OrderService_NewOrder = (\<lambda>calls.
        NewOrder_validateHash (\<lambda>order. word_of_nat (length (Order.Rest order)))),
      OrderService_CancelOrder = (\<lambda>calls oc. (oc, None))\<rparr>"

chapter \<open>Properties\<close>

section \<open>Accounts\<close>

lemma set_update_cases:
  "(k', v') \<in> set (AList.update k v al) \<Longrightarrow> (k' = k \<and> v' = v) \<or> (k', v') \<in> set al"
  by (induction al) (auto split: if_splits)





lemma nil_not_decimal: "\<not> isDecimal (BigInt_String None)"
  by (simp add: isDecimal_def BigInt_String_def isDigit_def)









section \<open>The order DAO\<close>





subsection \<open>The hash as a unique key\<close>

lemma NewOrderDao_hashKeyed:
  assumes "NewOrderDao cfg db0 = Return (dao, db)"
  shows "hashKeyed dao db"
  using assms
  by (auto simp: NewOrderDao_def EnsureIndex_def hashKeyed_def hashIndexed_def orders_def
      Let_def split: if_splits)

lemma OrderDao_Create_hashKeyed:
  assumes "hashKeyed dao db"
  shows "hashKeyed dao (snd (snd (OrderDao_Create dao i t1 t2 order db)))"
  using assms
  by (auto simp: OrderDao_Create_def db_Create_def hashKeyed_def hashStored_def orders_def
      hashIndexed_def Let_def)

lemma run_Create_hashKeyed:
  "hashKeyed dao db \<Longrightarrow> hashKeyed dao (run_Create dao rs db)"
proof (induction rs arbitrary: db)
  case Nil
  then show ?case by simp
next
  case (Cons r rs)
  obtain i t1 t2 order where r: "r = (i, t1, t2, order)"
    by (cases r) auto
  from Cons.prems have "hashKeyed dao (snd (snd (OrderDao_Create dao i t1 t2 order db)))"
    by (rule OrderDao_Create_hashKeyed)
  then show ?case
    using Cons.IH r by simp
qed

lemma OrderDao_Create_duplicate:
  assumes "hashKeyed dao db"
    and "Order.Hash order \<in> set (map Order.Hash (orders dao db))"
  shows "fst (OrderDao_Create dao i t1 t2 order db) = Some duplicateKey"
    and "snd (snd (OrderDao_Create dao i t1 t2 order db)) = db"
  using assms
  by (auto simp: OrderDao_Create_def db_Create_def hashKeyed_def hashStored_def orders_def
      Let_def)

text \<open>
  C6.  Once \<open>NewOrderDao\<close> has returned (it panics when the unique index on the hash
  cannot be built), and after any number of calls of \<open>OrderDao.Create\<close>, no two records
  of the order collection share a hash, so that records with equal hashes are the same
  record; and a further \<open>OrderDao.Create\<close> of an order whose hash is already stored fails
  with the duplicate-key error and leaves the database as it was.
\<close>

theorem C6_hash_is_unique_key:
  assumes "NewOrderDao cfg db0 = Return (dao, db1)"
    and "db = run_Create dao requests db1"
  shows "distinct (map Order.Hash (orders dao db))
       \<and> (\<forall>x \<in> set (orders dao db). \<forall>y \<in> set (orders dao db).
            Order.Hash x = Order.Hash y \<longrightarrow> x = y)
       \<and> (Order.Hash order \<in> set (map Order.Hash (orders dao db)) \<longrightarrow>
            fst (OrderDao_Create dao i t1 t2 order db) = Some duplicateKey
            \<and> snd (snd (OrderDao_Create dao i t1 t2 order db)) = db)"
proof -
  have keyed: "hashKeyed dao db"
    using assms NewOrderDao_hashKeyed run_Create_hashKeyed by blast
  then have d: "distinct (map Order.Hash (orders dao db))"
    by (simp add: hashKeyed_def)
  then have "inj_on Order.Hash (set (orders dao db))"
    by (simp add: distinct_map)
  then have "\<forall>x \<in> set (orders dao db). \<forall>y \<in> set (orders dao db).
      Order.Hash x = Order.Hash y \<longrightarrow> x = y"
    by (auto dest: inj_onD)
  with d OrderDao_Create_duplicate [OF keyed] show ?thesis
    by blast
qed

theorem C6_hash_is_unique_key_witness:
  "NewOrderDao ''proofdex'' emptyDatabase = Return (ordersDao, indexedDatabase)
   \<and> map Order.Hash (orders ordersDao (run_Create ordersDao twoRequests indexedDatabase))
       = [0xA1, 0xB2]
   \<and> distinct (map Order.Hash
         (orders ordersDao (run_Create ordersDao twoRequests indexedDatabase)))
   \<and> fst (OrderDao_Create ordersDao ''5b3f'' 3000 3001 orderB
         (run_Create ordersDao twoRequests indexedDatabase)) = Some duplicateKey
   \<and> snd (snd (OrderDao_Create ordersDao ''5b3f'' 3000 3001 orderB
         (run_Create ordersDao twoRequests indexedDatabase)))
       = run_Create ordersDao twoRequests indexedDatabase"
proof -
  have new: "NewOrderDao ''proofdex'' emptyDatabase = Return (ordersDao, indexedDatabase)"
    by (simp add: NewOrderDao_def EnsureIndex_def emptyDatabase_def indexedDatabase_def
        ordersDao_def Let_def)
  have stored: "map Order.Hash (orders ordersDao (run_Create ordersDao twoRequests indexedDatabase))
      = [0xA1, 0xB2]"
    by (simp add: twoRequests_def OrderDao_Create_def db_Create_def hashIndexed_def
        hashStored_def orders_def ordersDao_def indexedDatabase_def emptyDatabase_def
        orderA_def orderB_def Let_def)
  then have mem: "Order.Hash orderB
      \<in> set (map Order.Hash (orders ordersDao (run_Create ordersDao twoRequests indexedDatabase)))"
    by (simp add: orderB_def)
  note key = C6_hash_is_unique_key [OF new refl, of twoRequests orderB "''5b3f''" 3000 3001]
  from key have "distinct (map Order.Hash
      (orders ordersDao (run_Create ordersDao twoRequests indexedDatabase)))"
    by blast
  moreover from key mem
  have "fst (OrderDao_Create ordersDao ''5b3f'' 3000 3001 orderB
        (run_Create ordersDao twoRequests indexedDatabase)) = Some duplicateKey
      \<and> snd (snd (OrderDao_Create ordersDao ''5b3f'' 3000 3001 orderB
        (run_Create ordersDao twoRequests indexedDatabase)))
       = run_Create ordersDao twoRequests indexedDatabase"
    by blast
  ultimately show ?thesis
    using new stored by simp
qed

section \<open>The account service\<close>

lemma keys_setTokenBalances:
  "fst ` set (setTokenBalances tokens balances) =
     fst ` set balances \<union> Token.ContractAddress ` set tokens"
  by (induction tokens arbitrary: balances) (auto simp: dom_update)

lemma distinct_setTokenBalances:
  "distinct (map fst balances) \<Longrightarrow> distinct (map fst (setTokenBalances tokens balances))"
  by (induction tokens arbitrary: balances) (auto simp: distinct_update)

lemma length_setTokenBalances:
  assumes "distinct (map Token.ContractAddress tokens)"
  shows "length (setTokenBalances tokens []) = length tokens"
proof -
  have d: "distinct (map fst (setTokenBalances tokens []))"
    by (simp add: distinct_setTokenBalances)
  have "length (setTokenBalances tokens []) = length (map fst (setTokenBalances tokens []))"
    by simp
  also have "\<dots> = card (set (map fst (setTokenBalances tokens [])))"
    using d by (simp only: distinct_card)
  also have "\<dots> = card (Token.ContractAddress ` set tokens)"
    by (simp add: keys_setTokenBalances)
  also have "\<dots> = card (set (map Token.ContractAddress tokens))"
    by simp
  also have "\<dots> = length tokens"
    using assms by (simp only: distinct_card length_map)
  finally show ?thesis .
qed

lemma values_setTokenBalances:
  "(k, v) \<in> set (setTokenBalances tokens balances) \<Longrightarrow>
     (k, v) \<in> set balances
     \<or> (\<exists>t \<in> set tokens. Token.ContractAddress t = k \<and> v = Some (newTokenBalance t))"
proof (induction tokens arbitrary: balances)
  case Nil
  then show ?case by simp
next
  case (Cons t ts)
  from Cons.prems have "(k, v) \<in> set (setTokenBalances ts
      (AList.update (Token.ContractAddress t) (Some (newTokenBalance t)) balances))"
    by simp
  from Cons.IH [OF this] show ?case
    by (auto dest: set_update_cases)
qed

text \<open>
  C9.  The lookup by address either succeeds or reports NO\_ACCOUNT\_FOUND.  When it finds
  an account, \<open>AccountService.Create\<close> returns ACCOUNT\_ALREADY\_EXISTS and the database is
  as before.  When it finds none and the tokens can be read, what is handed to the account
  DAO to be persisted is the account with \<open>IsBlocked\<close> false and with token balances that
  have one entry for the contract address of every known token and no other entry, each
  with a balance and an allowance of 100000 and a locked balance of 0 (not zero balances,
  whatever the comment in the code says); with tokens of distinct contract addresses
  there are as many entries as tokens.
\<close>

theorem C9_create_account:
  assumes "AccountDao_GetByAddress s db (Account.Address account) = (acc, err)"
    and "err = None \<or> err = Some ''NO_ACCOUNT_FOUND''"
  shows "(acc \<noteq> None \<longrightarrow>
            AccountService_Create s (Some account) db = Return (Some ''ACCOUNT_ALREADY_EXISTS'', db))
       \<and> (acc = None \<and> TokenDao_GetAll s db = (tokens, None) \<longrightarrow>
            (\<exists>balances.
               AccountService_Create s (Some account) db =
                 Return (AccountDao_Create s
                   (account\<lparr>Account.IsBlocked := False, Account.TokenBalances := balances\<rparr>) db)
               \<and> fst ` set balances = Token.ContractAddress ` set tokens
               \<and> distinct (map fst balances)
               \<and> (\<forall>(k, v) \<in> set balances. \<exists>t \<in> set tokens.
                     Token.ContractAddress t = k \<and> initialBalance t v)
               \<and> (distinct (map Token.ContractAddress tokens) \<longrightarrow>
                     length balances = length tokens)))"
proof (intro conjI impI)
  assume "acc \<noteq> None"
  with assms show "AccountService_Create s (Some account) db =
      Return (Some ''ACCOUNT_ALREADY_EXISTS'', db)"
    by (auto simp: AccountService_Create_def)
next
  assume a: "acc = None \<and> TokenDao_GetAll s db = (tokens, None)"
  let ?b = "setTokenBalances tokens []"
  have run: "AccountService_Create s (Some account) db =
      Return (AccountDao_Create s
        (account\<lparr>Account.IsBlocked := False, Account.TokenBalances := ?b\<rparr>) db)"
    using assms a by (auto simp: AccountService_Create_def)
  have vals: "\<forall>(k, v) \<in> set ?b. \<exists>t \<in> set tokens.
      Token.ContractAddress t = k \<and> initialBalance t v"
  proof clarify
    fix k v assume "(k, v) \<in> set ?b"
    from values_setTokenBalances [OF this]
    obtain t where "t \<in> set tokens" "Token.ContractAddress t = k" "v = Some (newTokenBalance t)"
      by auto
    then show "\<exists>t \<in> set tokens. Token.ContractAddress t = k \<and> initialBalance t v"
      by (auto simp: initialBalance_def newTokenBalance_def big_NewInt_def)
  qed
  show "\<exists>balances.
      AccountService_Create s (Some account) db =
        Return (AccountDao_Create s
          (account\<lparr>Account.IsBlocked := False, Account.TokenBalances := balances\<rparr>) db)
      \<and> fst ` set balances = Token.ContractAddress ` set tokens
      \<and> distinct (map fst balances)
      \<and> (\<forall>(k, v) \<in> set balances. \<exists>t \<in> set tokens.
            Token.ContractAddress t = k \<and> initialBalance t v)
      \<and> (distinct (map Token.ContractAddress tokens) \<longrightarrow> length balances = length tokens)"
    using run vals
    by (intro exI [of _ ?b]) (simp add: keys_setTokenBalances distinct_setTokenBalances
        length_setTokenBalances)
qed

theorem C9_create_account_witness:
  "AccountService_Create sampleDaos (Some (accountOf 0xA11CE))
       ([accountOf 0xB0B, accountOf 0xA11CE], [tokenZRX, tokenWETH]) =
     Return (Some ''ACCOUNT_ALREADY_EXISTS'',
       [accountOf 0xB0B, accountOf 0xA11CE], [tokenZRX, tokenWETH])
   \<and> (\<exists>balances.
        AccountService_Create sampleDaos (Some (accountOf 0xA11CE))
          ([accountOf 0xB0B], [tokenZRX, tokenWETH]) =
          Return (None,
            [accountOf 0xB0B,
             (accountOf 0xA11CE)\<lparr>Account.IsBlocked := False, Account.TokenBalances := balances\<rparr>],
            [tokenZRX, tokenWETH])
        \<and> fst ` set balances = {0xE41D, 0xC02A}
        \<and> length balances = 2)"
proof -
  let ?toks = "[tokenZRX, tokenWETH]"
  have found: "AccountDao_GetByAddress sampleDaos ([accountOf 0xB0B, accountOf 0xA11CE], ?toks)
      (Account.Address (accountOf 0xA11CE)) = (Some (accountOf 0xA11CE), None)"
    by (simp add: sampleDaos_def accountOf_def)
  have missing: "AccountDao_GetByAddress sampleDaos ([accountOf 0xB0B], ?toks)
      (Account.Address (accountOf 0xA11CE)) = (None, Some ''NO_ACCOUNT_FOUND'')"
    by (simp add: sampleDaos_def accountOf_def)
  have toks: "TokenDao_GetAll sampleDaos ([accountOf 0xB0B], ?toks) = (?toks, None)"
    by (simp add: sampleDaos_def)
  have d: "distinct (map Token.ContractAddress ?toks)"
    by (simp add: tokenZRX_def tokenWETH_def)
  from C9_create_account [OF found, of ?toks]
  have exists: "AccountService_Create sampleDaos (Some (accountOf 0xA11CE))
      ([accountOf 0xB0B, accountOf 0xA11CE], ?toks) =
      Return (Some ''ACCOUNT_ALREADY_EXISTS'', [accountOf 0xB0B, accountOf 0xA11CE], ?toks)"
    by simp
  from C9_create_account [OF missing, of ?toks] toks d
  obtain balances where
    "AccountService_Create sampleDaos (Some (accountOf 0xA11CE)) ([accountOf 0xB0B], ?toks) =
       Return (AccountDao_Create sampleDaos
         ((accountOf 0xA11CE)\<lparr>Account.IsBlocked := False, Account.TokenBalances := balances\<rparr>)
         ([accountOf 0xB0B], ?toks))"
    and "fst ` set balances = Token.ContractAddress ` set ?toks"
    and "length balances = length ?toks"
    by auto
  then have "AccountService_Create sampleDaos (Some (accountOf 0xA11CE))
        ([accountOf 0xB0B], ?toks) =
        Return (None,
          [accountOf 0xB0B,
           (accountOf 0xA11CE)\<lparr>Account.IsBlocked := False, Account.TokenBalances := balances\<rparr>],
          ?toks)
      \<and> fst ` set balances = {0xE41D, 0xC02A}
      \<and> length balances = 2"
    by (simp add: sampleDaos_def tokenZRX_def tokenWETH_def)
  with exists show ?thesis
    by blast
qed

section \<open>The OHLCV service\<close>

subsection \<open>Days of a month and of a year\<close>

lemma daysIn_pos: "0 < daysIn y m"
  by (simp add: daysIn_def)

lemma normDay_valid:
  "normDay y m (daysIn y m) = \<lparr>year = y, month = m, day = daysIn y m\<rparr>"
  using daysIn_pos [of y m] by (subst normDay.simps) simp

lemma normDay_day0:
  "normDay y m 0 = (if m = 1 then \<lparr>year = y - 1, month = 12, day = daysIn (y - 1) 12\<rparr>
                    else \<lparr>year = y, month = m - 1, day = daysIn y (m - 1)\<rparr>)"
  by (subst normDay.simps) (simp add: normDay_valid)

text \<open>Day 0 of the month after month \<open>m\<close> is the last day of month \<open>m\<close>.\<close>

lemma month_days:
  assumes "1 \<le> m" "m \<le> 12"
  shows "day (time_Date y (m + 1) 0) = daysIn y m"
proof (cases "m = 12")
  case True
  then show ?thesis
    by (simp add: time_Date_def normDay_day0)
next
  case False
  with assms have "m div 12 = 0" "m mod 12 = m"
    by simp_all
  with assms show ?thesis
    by (simp add: time_Date_def normDay_day0)
qed

text \<open>Day 0 of month 0 of a year is 30 November of the year before.\<close>

lemma november30: "time_Date y 0 0 = \<lparr>year = y - 1, month = 11, day = 30\<rparr>"
  by (simp add: time_Date_def normDay_day0 daysIn_def)

lemma div_step:
  fixes y k :: int
  assumes "0 < k"
  shows "y div k - (y - 1) div k = (if y mod k = 0 then 1 else 0)"
proof (cases "y mod k = 0")
  case True
  have "y = k * (y div k) + y mod k"
    by simp
  with True have "y - 1 = k * (y div k - 1) + (k - 1)"
    by (simp add: algebra_simps)
  then have "(y - 1) div k = y div k - 1"
    by (rule int_div_pos_eq) (use assms in simp_all)
  with True show ?thesis
    by simp
next
  case False
  have r: "0 \<le> y mod k" "y mod k < k"
    using assms by simp_all
  have "y = k * (y div k) + y mod k"
    by simp
  then have "y - 1 = k * (y div k) + (y mod k - 1)"
    by simp
  then have "(y - 1) div k = y div k"
    by (rule int_div_pos_eq) (use r False in simp_all)
  with False show ?thesis
    by simp
qed

lemma leap_step:
  "(y::int) div 4 - y div 100 + y div 400
     - ((y - 1) div 4 - (y - 1) div 100 + (y - 1) div 400) = (if isLeap y then 1 else 0)"
proof -
  have "(100::int) dvd 400" "(4::int) dvd 100"
    by simp_all
  then have d: "y mod 400 = 0 \<Longrightarrow> y mod 100 = 0" "y mod 100 = 0 \<Longrightarrow> y mod 4 = 0"
    by (auto simp only: mod_eq_0_iff_dvd dest: dvd_trans)
  have s: "y div 4 - (y - 1) div 4 = (if y mod 4 = 0 then 1 else 0)"
    "y div 100 - (y - 1) div 100 = (if y mod 100 = 0 then 1 else 0)"
    "y div 400 - (y - 1) div 400 = (if y mod 400 = 0 then 1 else 0)"
    by (simp_all add: div_step)
  have "y div 4 - y div 100 + y div 400
      - ((y - 1) div 4 - (y - 1) div 100 + (y - 1) div 400)
    = (y div 4 - (y - 1) div 4) - (y div 100 - (y - 1) div 100)
      + (y div 400 - (y - 1) div 400)"
    by (simp only: algebra_simps)
  also have "\<dots> = (if y mod 4 = 0 then 1 else 0) - (if y mod 100 = 0 then 1 else 0)
      + (if y mod 400 = 0 then 1 else 0)"
    by (simp only: s)
  also have "\<dots> = (if isLeap y then 1 else 0)"
  proof (cases "y mod 400 = 0")
    case True
    with d show ?thesis by (simp add: isLeap_def)
  next
    case False
    show ?thesis
    proof (cases "y mod 100 = 0")
      case True
      with d False show ?thesis by (simp add: isLeap_def)
    next
      case False
      with \<open>y mod 400 \<noteq> 0\<close> show ?thesis by (simp add: isLeap_def)
    qed
  qed
  finally show ?thesis .
qed

lemma year_days:
  "dayNumber (time_Date (y + 1) 0 0) - dayNumber (time_Date y 0 0) = daysInYear y"
proof -
  have a: "dayNumber \<lparr>year = y, month = 11, day = 30\<rparr> =
      365 * (y - 1) + ((y - 1) div 4 - (y - 1) div 100 + (y - 1) div 400) + 304
        + (if isLeap y then 1 else 0) + 29" for y
    by (simp add: dayNumber_def daysBefore_def Let_def)
  have "dayNumber \<lparr>year = y, month = 11, day = 30\<rparr>
      - dayNumber \<lparr>year = y - 1, month = 11, day = 30\<rparr>
      = 365 + ((y - 1) div 4 - (y - 1) div 100 + (y - 1) div 400
          - ((y - 1 - 1) div 4 - (y - 1 - 1) div 100 + (y - 1 - 1) div 400))
        + (if isLeap y then 1 else 0) - (if isLeap (y - 1) then 1 else 0)"
    unfolding a by (simp add: algebra_simps)
  also have "\<dots> = 365 + (if isLeap y then 1 else 0)"
    unfolding leap_step [of "y - 1"] by simp
  finally show ?thesis
    by (simp add: november30 daysInYear_def)
qed

lemma year_hours:
  "Sub_Hours (time_Date (y + 1) 0 0) (time_Date y 0 0) div 24 = daysInYear y"
proof -
  have "daysInYear y = 365 \<or> daysInYear y = 366"
    by (simp add: daysInYear_def)
  then show ?thesis
    unfolding Sub_Hours_def year_days Let_def
    by (auto simp: signed_divide_int_def)
qed

subsection \<open>The interval\<close>

lemma sint_interval:
  fixes duration :: int64 and d :: int
  assumes "- (2 ^ 63) \<le> sint duration * d * (7 * 24 * 60 * 60)"
    and "sint duration * d * (7 * 24 * 60 * 60) < 2 ^ 63"
  shows "sint (duration * word_of_int d * 7 * 24 * 60 * 60) = sint duration * d * (7 * 24 * 60 * 60)"
proof -
  have "duration * word_of_int d * 7 * 24 * 60 * 60 =
      (word_of_int (sint duration * d * (7 * 24 * 60 * 60)) :: int64)"
    by simp
  then have "sint (duration * word_of_int d * 7 * 24 * 60 * 60) =
      signed_take_bit 63 (sint duration * d * (7 * 24 * 60 * 60))"
    by (simp only: sint_sbintrunc') simp
  also have "\<dots> = sint duration * d * (7 * 24 * 60 * 60)"
    using assms by (rule signed_take_bit_int_eq_self)
  finally show ?thesis .
qed

text \<open>
  C4.  When the readings of the clock fall in month \<open>m\<close> of year \<open>y\<close>, the interval that
  \<open>GetOHLCV\<close> computes for the unit month is, in \<open>int64\<close> arithmetic, the duration times
  the number of days of that month times 7 times 24 times 60 times 60, and for the unit yr
  the duration times the number of days of that year times the same factors: a number of
  days multiplied by the 7 of a week.  As long as the product fits an \<open>int64\<close> it is the
  product of the integers.
\<close>

theorem C4_month_year_interval:
  assumes "Year (clock s 1) = y" and "Year (clock s 2) = y"
    and "Month (clock s 2) = m" and "1 \<le> m" and "m \<le> 12"
  shows "intervalSecondsOf s duration ''month'' =
           Some (duration * word_of_int (daysIn y m) * 7 * 24 * 60 * 60)
       \<and> intervalSecondsOf s duration ''yr'' =
           Some (duration * word_of_int (daysInYear y) * 7 * 24 * 60 * 60)
       \<and> (- (2 ^ 63) \<le> sint duration * daysIn y m * (7 * 24 * 60 * 60)
            \<and> sint duration * daysIn y m * (7 * 24 * 60 * 60) < 2 ^ 63 \<longrightarrow>
          map_option sint (intervalSecondsOf s duration ''month'') =
            Some (sint duration * daysIn y m * (7 * 24 * 60 * 60)))
       \<and> (- (2 ^ 63) \<le> sint duration * daysInYear y * (7 * 24 * 60 * 60)
            \<and> sint duration * daysInYear y * (7 * 24 * 60 * 60) < 2 ^ 63 \<longrightarrow>
          map_option sint (intervalSecondsOf s duration ''yr'') =
            Some (sint duration * daysInYear y * (7 * 24 * 60 * 60)))"
proof -
  have mo: "intervalSecondsOf s duration ''month'' =
      Some (duration * word_of_int (daysIn y m) * 7 * 24 * 60 * 60)"
    using assms
    by (simp add: intervalSecondsOf_def unitSwitch_def Let_def month_days)
  have yr: "intervalSecondsOf s duration ''yr'' =
      Some (duration * word_of_int (daysInYear y) * 7 * 24 * 60 * 60)"
    using assms
    by (simp add: intervalSecondsOf_def unitSwitch_def Let_def year_hours)
  have fits: "- (2 ^ 63) \<le> sint duration * d * (7 * 24 * 60 * 60)
        \<and> sint duration * d * (7 * 24 * 60 * 60) < 2 ^ 63 \<longrightarrow>
      map_option sint (Some (duration * word_of_int d * 7 * 24 * 60 * 60)) =
        Some (sint duration * d * (7 * 24 * 60 * 60))" for d
  proof (intro impI, elim conjE)
    assume "- (2 ^ 63) \<le> sint duration * d * (7 * 24 * 60 * 60)"
      and "sint duration * d * (7 * 24 * 60 * 60) < 2 ^ 63"
    then have "sint (duration * word_of_int d * 7 * 24 * 60 * 60) =
        sint duration * d * (7 * 24 * 60 * 60)"
      by (rule sint_interval)
    then show "map_option sint (Some (duration * word_of_int d * 7 * 24 * 60 * 60)) =
        Some (sint duration * d * (7 * 24 * 60 * 60))"
      by (simp only: option.map)
  qed
  show ?thesis
    unfolding mo yr using fits [of "daysIn y m"] fits [of "daysInYear y"] by blast
qed

theorem C4_month_year_interval_witness:
  "daysIn 2018 11 = 30
   \<and> daysInYear 2018 = 365
   \<and> intervalSecondsOf sampleOhlcv 2 ''month'' = Some 36288000
   \<and> intervalSecondsOf sampleOhlcv 2 ''yr'' = Some 441504000
   \<and> map_option sint (intervalSecondsOf sampleOhlcv 2 ''month'') = Some (2 * 30 * 604800)
   \<and> map_option sint (intervalSecondsOf sampleOhlcv 2 ''yr'') = Some (2 * 365 * 604800)"
proof -
  have c: "Year (clock sampleOhlcv 1) = 2018" "Year (clock sampleOhlcv 2) = 2018"
    "Month (clock sampleOhlcv 2) = 11"
    by (simp_all add: sampleOhlcv_def)
  have d: "daysIn 2018 11 = 30" "daysInYear 2018 = 365"
    by (simp_all add: daysIn_def daysInYear_def isLeap_def)
  have m: "(1::int) \<le> 11" "(11::int) \<le> 12"
    by simp_all
  have s: "sint (2 :: int64) = 2"
    by simp
  show ?thesis
    using C4_month_year_interval [OF c m, of 2]
    by (simp add: d s)
qed

text \<open>
  C10.  One \<open>timeInterval\<close> argument: the branch for one argument or more reads
  \<open>timeInterval[1]\<close>, and the call panics.
\<close>

theorem C10_single_timestamp_panics:
  "GetOHLCV sampleOhlcv sampleEncoders [] 1 ''min'' [1541030400] =
     Panic ''runtime error: index out of range''"
  by (simp add: GetOHLCV_def unitSwitch_def index_def Let_def)

section \<open>The order endpoint\<close>

text \<open>
  C8.  \<open>handleNewTrade\<close> looks up the private order channel of the hash the payload
  carries.  When the hub has one, the payload is sent on it and nothing else is done; when
  it has none, nothing is done at all: no call is made, no error is sent.
\<close>

theorem C8_new_trade_relayed:
  "(GetOrderChannel E calls (HexToHash E (WebSocketPayload.Hash msg)) = Some ch \<longrightarrow>
      handleNewTrade E msg conn calls = calls @ [Send ch msg])
   \<and> (GetOrderChannel E calls (HexToHash E (WebSocketPayload.Hash msg)) = None \<longrightarrow>
      handleNewTrade E msg conn calls = calls)"
  by (simp add: handleNewTrade_def)

theorem C8_new_trade_relayed_witness:
  "GetOrderChannel sampleCollaborators
       [RegisterOrderConnection 0x0D \<lparr>Conn = 7, ReadChannel = Some 0, Active = False\<rparr>]
       (HexToHash sampleCollaborators ''0x0d'') = Some 0
   \<and> handleNewTrade sampleCollaborators
       \<lparr>Type = ''NEW_TRADE'', Hash = ''0x0d'', Data = ''signature''\<rparr> 7
       [RegisterOrderConnection 0x0D \<lparr>Conn = 7, ReadChannel = Some 0, Active = False\<rparr>]
     = [RegisterOrderConnection 0x0D \<lparr>Conn = 7, ReadChannel = Some 0, Active = False\<rparr>,
        Send 0 \<lparr>Type = ''NEW_TRADE'', Hash = ''0x0d'', Data = ''signature''\<rparr>]
   \<and> GetOrderChannel sampleCollaborators [] (HexToHash sampleCollaborators ''0x0d'') = None
   \<and> handleNewTrade sampleCollaborators
       \<lparr>Type = ''NEW_TRADE'', Hash = ''0x0d'', Data = ''signature''\<rparr> 7 [] = []"
proof -
  let ?msg = "\<lparr>Type = ''NEW_TRADE'', Hash = ''0x0d'', Data = ''signature''\<rparr>"
  let ?reg = "[RegisterOrderConnection 0x0D \<lparr>Conn = 7, ReadChannel = Some 0, Active = False\<rparr>]
    :: (string, string, unit) call list"
  have owned: "GetOrderChannel sampleCollaborators ?reg
      (HexToHash sampleCollaborators (WebSocketPayload.Hash ?msg)) = Some 0"
    by (simp add: sampleCollaborators_def)
  have free: "GetOrderChannel sampleCollaborators []
      (HexToHash sampleCollaborators (WebSocketPayload.Hash ?msg)) = None"
    by (simp add: sampleCollaborators_def)
  from owned C8_new_trade_relayed [of sampleCollaborators ?reg ?msg 0 7]
  have "handleNewTrade sampleCollaborators ?msg 7 ?reg = ?reg @ [Send 0 ?msg]"
    by blast
  moreover from free C8_new_trade_relayed [of sampleCollaborators "[]" ?msg 0 7]
  have "handleNewTrade sampleCollaborators ?msg 7 [] = []"
    by blast
  ultimately show ?thesis
    using owned free by simp
qed

text \<open>
  C7.  \<open>ws\<close> routes a payload by its type: NEW\_ORDER to \<open>handleNewOrder\<close>,
  CANCEL\_ORDER to \<open>handleCancelOrder\<close>, NEW\_TRADE to \<open>handleNewTrade\<close>.  A payload of
  any other type reaches no handler: nothing is called on the hub or on the order service,
  and the log is all that is written to.
\<close>

theorem C7_dispatch_by_type:
  assumes "decodePayload E input = (Some msg, err)"
    and "logged = calls @ map Log (case err of Some e \<Rightarrow> [e] | None \<Rightarrow> [])"
  shows "(Type msg = ''NEW_ORDER'' \<longrightarrow>
            ws E input conn calls = Return (handleNewOrder E msg conn logged))
       \<and> (Type msg = ''CANCEL_ORDER'' \<longrightarrow>
            ws E input conn calls = Return (handleCancelOrder E msg conn logged))
       \<and> (Type msg = ''NEW_TRADE'' \<longrightarrow>
            ws E input conn calls = Return (handleNewTrade E msg conn logged))
       \<and> (Type msg \<noteq> ''NEW_ORDER'' \<and> Type msg \<noteq> ''CANCEL_ORDER'' \<and> Type msg \<noteq> ''NEW_TRADE'' \<longrightarrow>
            ws E input conn calls = Return (logged @ map Log [''Response with error'']))"
  using assms by (cases err) (simp_all add: ws_def)

theorem C7_dispatch_by_type_witness:
  "ws sampleCollaborators ''NEW_ORDER 0x0d:buy 10 at 100'' 7 [] =
     Return (handleNewOrder sampleCollaborators
       \<lparr>Type = ''NEW_ORDER'', Hash = ''0x0d'', Data = ''0x0d:buy 10 at 100''\<rparr> 7 [])
   \<and> ws sampleCollaborators ''CANCEL_ORDER 0x0d'' 7 [] =
     Return (handleCancelOrder sampleCollaborators
       \<lparr>Type = ''CANCEL_ORDER'', Hash = ''0x0d'', Data = ''0x0d''\<rparr> 7 [])
   \<and> ws sampleCollaborators ''NEW_TRADE signature'' 7 [] =
     Return (handleNewTrade sampleCollaborators
       \<lparr>Type = ''NEW_TRADE'', Hash = ''0x0d'', Data = ''signature''\<rparr> 7 [])
   \<and> ws sampleCollaborators ''SUBMIT_SIGNATURE signature'' 7 [] =
     Return [Log ''Response with error'']"
proof -
  have d1: "decodePayload sampleCollaborators ''NEW_ORDER 0x0d:buy 10 at 100'' =
      (Some \<lparr>Type = ''NEW_ORDER'', Hash = ''0x0d'', Data = ''0x0d:buy 10 at 100''\<rparr>, None)"
    by (simp add: sampleCollaborators_def)
  have d2: "decodePayload sampleCollaborators ''CANCEL_ORDER 0x0d'' =
      (Some \<lparr>Type = ''CANCEL_ORDER'', Hash = ''0x0d'', Data = ''0x0d''\<rparr>, None)"
    by (simp add: sampleCollaborators_def)
  have d3: "decodePayload sampleCollaborators ''NEW_TRADE signature'' =
      (Some \<lparr>Type = ''NEW_TRADE'', Hash = ''0x0d'', Data = ''signature''\<rparr>, None)"
    by (simp add: sampleCollaborators_def)
  have d4: "decodePayload sampleCollaborators ''SUBMIT_SIGNATURE signature'' =
      (Some \<lparr>Type = ''SUBMIT_SIGNATURE'', Hash = ''0x0d'', Data = ''signature''\<rparr>, None)"
    by (simp add: sampleCollaborators_def)
  have l: "[] = [] @ map Log (case None of Some e \<Rightarrow> [e] | None \<Rightarrow> [])"
    by simp
  show ?thesis
    using C7_dispatch_by_type [OF d1 l, of 7] C7_dispatch_by_type [OF d2 l, of 7]
      C7_dispatch_by_type [OF d3 l, of 7] C7_dispatch_by_type [OF d4 l, of 7]
    by simp
qed

text \<open>
  C2.  A CANCEL\_ORDER payload whose data does not decode: the handler logs the error and
  sends it to the client, and then goes on to register the connection under the hash of
  the half-decoded cancel and to call \<open>orderService.CancelOrder\<close> with it.
\<close>

theorem C2_cancel_called_after_decode_error:
  "snd (OrderCancel_UnmarshalJSON sampleCollaborators
         (fst (jsonMarshal sampleCollaborators []))) = Some ''unexpected end of JSON input''
   \<and> handleCancelOrder sampleCollaborators
       \<lparr>Type = ''CANCEL_ORDER'', Hash = ''0x0d'', Data = []\<rparr> 7 [] =
     [Log ''unexpected end of JSON input'',
      SendOrderErrorMessage 7 ''unexpected end of JSON input'' (Some 0),
      RegisterOrderConnection 0 \<lparr>Conn = 7, ReadChannel = None, Active = True\<rparr>,
      RegisterConnectionUnsubscribeHandler 7 0,
      CancelOrder \<lparr>OrderCancel.Hash = 0, Rest = ()\<rparr>]"
  by (simp add: handleCancelOrder_def sampleCollaborators_def)




end
